theory Spec2Isabelle
  imports Main "HOL-Library.AList"
begin

section \<open>Errors\<close>

text \<open>
  Every \<^verbatim>\<open>throw\<close> and every failed \<^verbatim>\<open>assert\<close> of the sources is a value of this type.
  \<open>SchemaError\<close> carries the message of an error raised by the normalization pipeline
  (\<^verbatim>\<open>throw new Error(msg)\<close> and \<^verbatim>\<open>assert(cond, msg)\<close> in normalize.js); the JavaScript
  class of the thrown object is not modelled.
\<close>

datatype error =
    SchemaError string
  | ConstructorError string
  | TypeError string
  | TransactionStateError
  | EngineError

section \<open>Schema normalization (packages/realm/src/schema/normalize.js)\<close>

subsection \<open>JavaScript values and objects\<close>

text \<open>
  A property schema is a JavaScript object with the keys below; a key that is absent or
  holds \<^verbatim>\<open>undefined\<close> is \<open>None\<close>. The same record stands for the result of the type
  parser, a raw object declaration, the merged schema and the canonical schema, as the
  one kind of object does in the source. The declared (TypeScript) types of the values
  are kept: strings for \<open>type\<close>, \<open>objectType\<close>, \<open>mapTo\<close>, \<open>property\<close> and \<open>name\<close>, booleans for
  \<open>optional\<close> and \<open>indexed\<close>.
\<close>

datatype jsvalue = JNull | JBoolean bool | JNumber int | JString string

record PropertySchema =
  name :: "string option"
  type :: "string option"
  objectType :: "string option"
  optional :: "bool option"
  indexed :: "bool option"
  mapTo :: "string option"
  property :: "string option"
  default' :: "jsvalue option"

definition emptyObject :: PropertySchema where
  \<comment> \<open>the object literal \<^verbatim>\<open>{}\<close>\<close>
  "emptyObject =
     \<lparr>name = None, type = None, objectType = None, optional = None, indexed = None,
      mapTo = None, property = None, default' = None\<rparr>"

definition orElse :: "'a option \<Rightarrow> 'a option \<Rightarrow> 'a option" where
  "orElse later earlier = (case later of Some v \<Rightarrow> Some v | None \<Rightarrow> earlier)"

definition spread :: "PropertySchema \<Rightarrow> PropertySchema \<Rightarrow> PropertySchema" where
  \<comment> \<open>\<^verbatim>\<open>{...a, ...b}\<close> for objects without \<^verbatim>\<open>undefined\<close> values: a key of \<open>b\<close> wins.\<close>
  "spread a b =
     \<lparr>name = orElse (name b) (name a), type = orElse (type b) (type a),
      objectType = orElse (objectType b) (objectType a),
      optional = orElse (optional b) (optional a),
      indexed = orElse (indexed b) (indexed a), mapTo = orElse (mapTo b) (mapTo a),
      property = orElse (property b) (property a),
      default' = orElse (default' b) (default' a)\<rparr>"

definition removeUndefinedValues :: "PropertySchema \<Rightarrow> PropertySchema" where
  \<comment> \<open>Dropping the keys that hold \<^verbatim>\<open>undefined\<close> leaves the record as it is: such a key is
      already \<open>None\<close>.\<close>
  "removeUndefinedValues obj = obj"

definition str :: "string option \<Rightarrow> string" where
  \<comment> \<open>a value inside a template literal: \<^verbatim>\<open>`${undefined}`\<close> is \<^verbatim>\<open>"undefined"\<close>\<close>
  "str v = (case v of None \<Rightarrow> ''undefined'' | Some s \<Rightarrow> s)"

definition truthy :: "string option \<Rightarrow> bool" where
  \<comment> \<open>\<^verbatim>\<open>!!v\<close> for a string or \<^verbatim>\<open>undefined\<close>\<close>
  "truthy v = (case v of None \<Rightarrow> False | Some s \<Rightarrow> s \<noteq> [])"

definition toBoolean :: "bool option \<Rightarrow> bool" where
  \<comment> \<open>\<^verbatim>\<open>!!v\<close> for a boolean or \<^verbatim>\<open>undefined\<close>\<close>
  "toBoolean v = (case v of None \<Rightarrow> False | Some b \<Rightarrow> b)"

definition endsWith :: "string \<Rightarrow> string \<Rightarrow> bool" where
  "endsWith s suffix =
     (length suffix \<le> length s \<and> drop (length s - length suffix) s = suffix)"

definition substring :: "string \<Rightarrow> nat \<Rightarrow> nat \<Rightarrow> string" where
  \<comment> \<open>\<^verbatim>\<open>s.substring(a, b)\<close>: the smaller argument is the start, both are clamped to the length\<close>
  "substring s a b = take (max a b - min a b) (drop (min a b) s)"

definition quote :: string where
  "quote = [CHR 0x27]"

subsection \<open>Objects as ordered entries\<close>

text \<open>
  An object used as a mapping is the list of its entries in the order \<^verbatim>\<open>Object.entries\<close>
  gives them. \<^verbatim>\<open>Object.fromEntries\<close> defines the keys one after the other: a key defined
  again keeps its place and takes the new value. The own keys of the result are
  enumerated with the array indices first, in ascending numeric order, then the other
  strings in the order they were created.
\<close>

definition digitValue :: "char \<Rightarrow> int" where
  "digitValue c = of_char c - of_char CHR ''0''"

definition isDigit :: "char \<Rightarrow> bool" where
  "isDigit c = (of_char CHR ''0'' \<le> (of_char c :: int) \<and> (of_char c :: int) \<le> of_char CHR ''9'')"

definition numericValue :: "string \<Rightarrow> int" where
  "numericValue s = foldl (\<lambda>n c. 10 * n + digitValue c) 0 s"

definition isArrayIndex :: "string \<Rightarrow> bool" where
  \<comment> \<open>a canonical numeric string whose value is at most \<open>2^32 - 2\<close>\<close>
  "isArrayIndex s =
     (s \<noteq> [] \<and> list_all isDigit s \<and> (s = ''0'' \<or> hd s \<noteq> CHR ''0'') \<and>
      numericValue s < 4294967295)"

definition ownEntriesOrder :: "(string \<times> 'a) list \<Rightarrow> (string \<times> 'a) list" where
  "ownEntriesOrder obj =
     sort_key (\<lambda>e. numericValue (fst e)) (filter (\<lambda>e. isArrayIndex (fst e)) obj) @
     filter (\<lambda>e. \<not> isArrayIndex (fst e)) obj"

definition fromEntries :: "(string \<times> 'a) list \<Rightarrow> (string \<times> 'a) list" where
  "fromEntries es = ownEntriesOrder (foldl (\<lambda>obj e. AList.update (fst e) (snd e) obj) [] es)"

text \<open>\<^verbatim>\<open>array.map(f)\<close> with a callback that may throw: the first exception ends the loop.\<close>

fun mapE :: "('a \<Rightarrow> error + 'b) \<Rightarrow> 'a list \<Rightarrow> error + 'b list" where
  "mapE f [] = Inr []"
| "mapE f (x # xs) =
     (case f x of
        Inl e \<Rightarrow> Inl e
      | Inr y \<Rightarrow> (case mapE f xs of Inl e \<Rightarrow> Inl e | Inr ys \<Rightarrow> Inr (y # ys)))"

subsection \<open>Validation of a canonical property schema\<close>

definition PRIMITIVE_TYPES :: "string set" where
  "PRIMITIVE_TYPES =
     set [''bool'', ''int'', ''float'', ''double'', ''decimal128'', ''objectId'', ''string'',
          ''data'', ''date'', ''mixed'', ''uuid'']"

definition isPrimitive :: "string option \<Rightarrow> bool" where
  \<comment> \<open>\<^verbatim>\<open>PRIMITIVE_TYPES.has(type)\<close>; \<^verbatim>\<open>undefined\<close> is not a member\<close>
  "isPrimitive t = (case t of None \<Rightarrow> False | Some s \<Rightarrow> s \<in> PRIMITIVE_TYPES)"

definition validateCanonicalPropertySchema :: "string \<Rightarrow> PropertySchema \<Rightarrow> error + unit" where
  "validateCanonicalPropertySchema objectSchemaName p =
     (if type p = Some ''list'' \<and> objectType p = Some ''list'' then
        Inl (SchemaError (''List property '' @ quote @ objectSchemaName @ ''#'' @ str (name p) @
                          quote @ '' cannot have list elements''))
      else if type p = Some ''list'' \<and> \<not> isPrimitive (objectType p) \<and> toBoolean (optional p) then
        Inl (SchemaError (''List property '' @ quote @ objectSchemaName @ ''#'' @ str (name p) @
                          quote @ '' of '' @ quote @ str (objectType p) @ quote @
                          '' elements, cannot be optional''))
      else if objectType p = Some [] then
        Inl (SchemaError (''Property '' @ quote @ objectSchemaName @ ''#'' @ str (name p) @
                          quote @ '' cannot have an empty object type''))
      else Inr ())"

subsection \<open>The type-shorthand parser\<close>

definition TYPE_MAPPINGS :: "string set" where
  \<comment> \<open>Modelled from the spec: \<^verbatim>\<open>TYPE_MAPPINGS\<close> is imported from \<^verbatim>\<open>../internal\<close>, which is not
      part of the sources; its keys are the closed enumeration of property types the spec
      lists. The functions below take as the parameter \<open>tm\<close> the set of all strings for
      which \<^verbatim>\<open>type in TYPE_MAPPINGS\<close> holds, own keys and the keys an object inherits
      (\<^verbatim>\<open>"constructor"\<close>, \<^verbatim>\<open>"toString"\<close>, ...). This constant instantiates it with the own keys
      only: it is used below at names that are not inherited keys.\<close>
  "TYPE_MAPPINGS =
     set [''bool'', ''int'', ''float'', ''double'', ''decimal128'', ''objectId'', ''string'',
          ''data'', ''date'', ''mixed'', ''uuid'', ''object'', ''list'', ''set'', ''dictionary'']"

definition noObjectTypeMessage :: "string \<Rightarrow> string" where
  "noObjectTypeMessage shorthand =
     ''Expected no '' @ quote @ ''objectType'' @ quote @ '' in property schema, when using '' @
     quote @ shorthand @ quote @ '' shorthand''"

function normalizePropertyType :: "string set \<Rightarrow> string \<Rightarrow> bool \<Rightarrow> error + PropertySchema" where
  "normalizePropertyType tm t allowObjectType =
     (if endsWith t ''[]'' then
        (if \<not> allowObjectType then Inl (SchemaError (noObjectTypeMessage ''[]''))
         else
           (case normalizePropertyType tm (substring t 0 (length t - 2)) True of
              Inl e \<Rightarrow> Inl e
            | Inr item \<Rightarrow>
                if \<not> (type item = Some ''object'' \<or> \<not> truthy (objectType item)) then
                  Inl (SchemaError (''Unexpected nested object type '' @ str (objectType item)))
                else
                  Inr (emptyObject
                       \<lparr>type := Some ''list'',
                        objectType :=
                          (if type item = Some ''object'' then objectType item else type item),
                        optional :=
                          (if type item = Some ''object'' then Some False
                           else Some (toBoolean (optional item)))\<rparr>)))
      else if endsWith t ''<>'' then
        (if \<not> allowObjectType then Inl (SchemaError (noObjectTypeMessage ''<>''))
         else
           (let itemType = substring t 0 (length t - 2) in
            case (if itemType \<noteq> [] then normalizePropertyType tm itemType True
                  else Inr (emptyObject\<lparr>type := Some ''mixed''\<rparr>)) of
              Inl e \<Rightarrow> Inl e
            | Inr item \<Rightarrow>
                Inr (emptyObject
                     \<lparr>type := Some ''set'',
                      objectType :=
                        (if type item = Some ''object'' then objectType item else type item),
                      optional :=
                        (if type item = Some ''object'' then Some True
                         else Some (toBoolean (optional item)))\<rparr>)))
      else if endsWith t ''{}'' then
        (if \<not> allowObjectType then Inl (SchemaError (noObjectTypeMessage ''{}''))
         else
           (let itemType = substring t 0 (length t - 2) in
            case (if itemType \<noteq> [] then normalizePropertyType tm itemType True
                  else Inr (emptyObject\<lparr>type := Some ''mixed'', optional := Some True\<rparr>)) of
              Inl e \<Rightarrow> Inl e
            | Inr item \<Rightarrow>
                Inr (emptyObject
                     \<lparr>type := Some ''dictionary'',
                      objectType :=
                        (if type item = Some ''object'' then objectType item else type item),
                      optional :=
                        (if type item = Some ''object'' then Some True
                         else Some (toBoolean (optional item)))\<rparr>)))
      else if endsWith t ''?'' then
        Inr (emptyObject\<lparr>optional := Some True, type := Some (substring t 0 (length t - 1))\<rparr>)
      else if t \<in> tm then
        (if t = ''dictionary'' then
           Inr (emptyObject\<lparr>type := Some t, objectType := Some ''mixed'', optional := Some True\<rparr>)
         else if t = ''set'' then
           Inr (emptyObject\<lparr>type := Some t, objectType := Some ''mixed'', optional := Some True\<rparr>)
         else if t = ''mixed'' then
           Inr (emptyObject\<lparr>type := Some t, optional := Some True\<rparr>)
         else Inr (emptyObject\<lparr>type := Some t\<rparr>))
      else
        Inr (emptyObject\<lparr>type := Some ''object'', objectType := Some t, optional := Some True\<rparr>))"
  by pat_completeness auto
termination
  by (relation "measure (\<lambda>(tm, t, allowObjectType). length t)")
     (auto simp: endsWith_def substring_def)

declare normalizePropertyType.simps [simp del]

subsection \<open>The property normalizer\<close>

text \<open>A property declaration is a shorthand string or an object.\<close>

datatype PropertyDecl = Shorthand string | Object PropertySchema

function normalizePropertySchema ::
  "string set \<Rightarrow> string \<Rightarrow> PropertyDecl \<Rightarrow> error + PropertySchema" where
  "normalizePropertySchema tm nm (Shorthand schema) =
     (case normalizePropertyType tm schema True of
        Inl e \<Rightarrow> Inl e
      | Inr parsed \<Rightarrow> normalizePropertySchema tm nm (Object parsed))"
| "normalizePropertySchema tm nm (Object schema) =
     (let rest = schema\<lparr>type := None\<rparr> in
      case type schema of
        None \<Rightarrow> Inl (TypeError ''Cannot read properties of undefined (reading endsWith)'')
      | Some ty \<Rightarrow>
          (case normalizePropertyType tm ty (objectType rest = None) of
             Inl e \<Rightarrow> Inl e
           | Inr propertySchemaFromType \<Rightarrow>
               (let mergedSchema =
                      spread (removeUndefinedValues propertySchemaFromType)
                             (removeUndefinedValues rest)
                in
                if (type mergedSchema = Some ''mixed'' \<or> objectType mergedSchema = Some ''mixed'') \<and>
                   \<not> (optional mergedSchema \<noteq> Some False)
                then Inl (SchemaError ''Mixed values should be declared as optional'')
                else
                  Inr (spread
                         (spread
                            (emptyObject
                             \<lparr>indexed := Some False, optional := Some False, mapTo := Some nm\<rparr>)
                            mergedSchema)
                         (emptyObject\<lparr>name := Some nm\<rparr>)))))"
  by pat_completeness auto
termination
  by (relation "measure (\<lambda>(tm, nm, schema). case schema of Shorthand _ \<Rightarrow> 1 | Object _ \<Rightarrow> 0)")
     auto

subsection \<open>The object schema normalizer\<close>

text \<open>
  \<open>properties\<close> of a raw declaration is an array of entries \<^verbatim>\<open>{name, ...}\<close> (the legacy
  form) or a mapping from names to property declarations. The canonical schema holds a
  mapping from names to canonical property schemas. \<open>name'\<close> is the \<^verbatim>\<open>name\<close> of the object
  schema. A class is known by an opaque reference; \<open>schema\<close> is its static \<^verbatim>\<open>schema\<close> when
  that is an object.
\<close>

datatype Properties =
    PropertiesArray "PropertySchema list"
  | PropertiesObject "(string \<times> PropertyDecl) list"

record 'p ObjectSchema =
  constructor :: "nat option"
  name' :: string
  primaryKey :: "string option"
  asymmetric :: "bool option"
  embedded :: "bool option"
  properties :: 'p

record RealmObjectClass =
  ref :: nat
  extendsRealmObject :: bool
  schema :: "Properties ObjectSchema option"

datatype arg = Function RealmObjectClass | ObjectLike "Properties ObjectSchema"

type_synonym CanonicalObjectSchema = "(string \<times> PropertySchema) list ObjectSchema"

definition entryOfLegacy :: "PropertySchema \<Rightarrow> string \<times> PropertyDecl" where
  \<comment> \<open>\<^verbatim>\<open>({ name, ...rest }) => [name, rest]\<close>; as a property key \<^verbatim>\<open>undefined\<close> is
      \<^verbatim>\<open>"undefined"\<close>\<close>
  "entryOfLegacy p = (str (name p), Object (p\<lparr>name := None\<rparr>))"

definition normalizeProperty ::
  "string set \<Rightarrow> Properties ObjectSchema \<Rightarrow> string \<times> PropertyDecl \<Rightarrow>
     error + string \<times> PropertySchema" where
  \<comment> \<open>the callback of \<^verbatim>\<open>Object.entries(arg.properties).map\<close> in \<^verbatim>\<open>normalizeObjectSchema\<close>\<close>
  "normalizeProperty tm a entry =
     (case normalizePropertySchema tm (fst entry) (snd entry) of
        Inl e \<Rightarrow> Inl e
      | Inr canonicalPropertySchema \<Rightarrow>
          (let canonicalPropertySchema' =
                 (if Some (fst entry) = primaryKey a
                  then canonicalPropertySchema\<lparr>indexed := Some True\<rparr>
                  else canonicalPropertySchema)
           in
           case validateCanonicalPropertySchema (name' a) canonicalPropertySchema' of
             Inl e \<Rightarrow> Inl e
           | Inr _ \<Rightarrow> Inr (fst entry, canonicalPropertySchema')))"

text \<open>
  \<open>ALLOW_VALUES_ARRAYS\<close> is \<^verbatim>\<open>flags.ALLOW_VALUES_ARRAYS\<close>, the legacy-array compatibility
  flag. \<^verbatim>\<open>assert.extends\<close> and \<^verbatim>\<open>assert.object\<close> come from \<^verbatim>\<open>../internal\<close>; their failures
  are the spec's ConstructorError.
\<close>

function normalizeObjectSchema ::
  "bool \<Rightarrow> string set \<Rightarrow> arg \<Rightarrow> error + CanonicalObjectSchema" where
  "normalizeObjectSchema ALLOW_VALUES_ARRAYS tm (Function c) =
     (if \<not> extendsRealmObject c then Inl (ConstructorError ''RealmObject'')
      else
        (case schema c of
           None \<Rightarrow> Inl (ConstructorError ''schema static'')
         | Some s \<Rightarrow>
             (case normalizeObjectSchema ALLOW_VALUES_ARRAYS tm (ObjectLike s) of
                Inl e \<Rightarrow> Inl e
              | Inr r \<Rightarrow> Inr (r\<lparr>constructor := Some (ref c)\<rparr>))))"
| "normalizeObjectSchema ALLOW_VALUES_ARRAYS tm (ObjectLike a) =
     (case properties a of
        PropertiesArray ps \<Rightarrow>
          if ALLOW_VALUES_ARRAYS then
            normalizeObjectSchema ALLOW_VALUES_ARRAYS tm
              (ObjectLike (a\<lparr>properties := PropertiesObject (fromEntries (map entryOfLegacy ps))\<rparr>))
          else Inl (SchemaError ''Array of properties are no longer supported'')
      | PropertiesObject entries \<Rightarrow>
          (case mapE (normalizeProperty tm a) entries of
             Inl e \<Rightarrow> Inl e
           | Inr canonical \<Rightarrow>
               Inr \<lparr>constructor = None,
                    name' = name' a,
                    primaryKey = primaryKey a,
                    asymmetric = Some (toBoolean (asymmetric a)),
                    embedded = Some (toBoolean (embedded a)),
                    properties = fromEntries canonical\<rparr>))"
  by pat_completeness auto
termination
  by (relation "measure (\<lambda>(fl, tm, a).
        case a of
          Function _ \<Rightarrow> 2
        | ObjectLike d \<Rightarrow> (case properties d of PropertiesArray _ \<Rightarrow> 1 | PropertiesObject _ \<Rightarrow> 0))")
     (auto split: Properties.splits)

definition normalizeRealmSchema ::
  "bool \<Rightarrow> string set \<Rightarrow> arg list \<Rightarrow> error + CanonicalObjectSchema list" where
  "normalizeRealmSchema ALLOW_VALUES_ARRAYS tm schemas =
     mapE (normalizeObjectSchema ALLOW_VALUES_ARRAYS tm) schemas"

text \<open>
  What a declaration declares: the raw object schema behind an argument (for a class, its
  static schema) and the names of the properties it lists.
\<close>

fun declaredSchema :: "arg \<Rightarrow> Properties ObjectSchema option" where
  "declaredSchema (Function c) = schema c"
| "declaredSchema (ObjectLike a) = Some a"

definition propertyNames :: "Properties \<Rightarrow> string set" where
  "propertyNames ps =
     (case ps of
        PropertiesArray entries \<Rightarrow> (\<lambda>p. str (name p)) ` set entries
      | PropertiesObject entries \<Rightarrow> fst ` set entries)"

text \<open>
  Two declarations used below:
  \<^verbatim>\<open>{name:"Person", properties:{name:"string", age:"int?", friends:"Person[]"}}\<close> and
  \<^verbatim>\<open>{name:"Task", primaryKey:"id", properties:{id:"int", title:"string"}}\<close>.
\<close>

definition personDeclaration :: arg where
  "personDeclaration =
     ObjectLike \<lparr>constructor = None, name' = ''Person'', primaryKey = None,
       asymmetric = None, embedded = None,
       properties = PropertiesObject
         [(''name'', Shorthand ''string''), (''age'', Shorthand ''int?''),
          (''friends'', Shorthand ''Person[]'')]\<rparr>"

definition taskDeclaration :: arg where
  "taskDeclaration =
     ObjectLike \<lparr>constructor = None, name' = ''Task'', primaryKey = Some ''id'',
       asymmetric = None, embedded = None,
       properties = PropertiesObject
         [(''id'', Shorthand ''int''), (''title'', Shorthand ''string'')]\<rparr>"

text \<open>
  The mapping form of a legacy array in the spec's words: the entries \<^verbatim>\<open>{name, ...rest}\<close>
  rewritten to \<^verbatim>\<open>{name: rest}\<close>, the same entries in the same order. It is compared below
  with what the code builds, \<open>fromEntries (map entryOfLegacy ps)\<close>.
\<close>

definition mappingForm :: "PropertySchema list \<Rightarrow> (string \<times> PropertyDecl) list" where
  "mappingForm ps = map (\<lambda>p. (str (name p), Object (p\<lparr>name := None\<rparr>))) ps"

text \<open>
  The legacy declaration
  \<^verbatim>\<open>{name:"Task", properties:[{name:"id", type:"int"}, {name:"title", type:"string"}]}\<close>.
\<close>

definition legacyTask :: "Properties ObjectSchema" where
  "legacyTask =
     \<lparr>constructor = None, name' = ''Task'', primaryKey = None,
      asymmetric = None, embedded = None,
      properties = PropertiesArray
        [emptyObject\<lparr>name := Some ''id'', type := Some ''int''\<rparr>,
         emptyObject\<lparr>name := Some ''title'', type := Some ''string''\<rparr>]\<rparr>"

section \<open>List (src/unnamed/part_000)\<close>

subsection \<open>The native list handle\<close>

text \<open>
  The adapter only talks to \<^verbatim>\<open>this.internal\<close>, a \<^verbatim>\<open>binding.List\<close> owned by the storage
  engine, whose code is not part of the sources. Indices are JavaScript numbers; the
  claims only speak about integers, so they are \<open>int\<close> here.
\<close>

definition size :: "'n list \<Rightarrow> int" where
  \<comment> \<open>Modelled from the spec: \<^verbatim>\<open>internal.size\<close>, the engine-reported number of elements.\<close>
  "size xs = int (length xs)"

definition getAny :: "'n list \<Rightarrow> int \<Rightarrow> error + 'n" where
  \<comment> \<open>Modelled from the spec: \<^verbatim>\<open>internal.getAny(i)\<close> is bounds-checked by the engine, which
      raises an EngineError outside \<open>0 \<le> i < size\<close>.\<close>
  "getAny xs i = (if 0 \<le> i \<and> i < size xs then Inr (xs ! nat i) else Inl EngineError)"

definition remove :: "'n list \<Rightarrow> int \<Rightarrow> error + 'n list" where
  \<comment> \<open>Modelled from the spec: \<^verbatim>\<open>internal.remove(i)\<close> deletes the element at \<open>i\<close>, bounds-checked
      by the engine.\<close>
  "remove xs i =
     (if 0 \<le> i \<and> i < size xs then Inr (take (nat i) xs @ drop (Suc (nat i)) xs)
      else Inl EngineError)"

definition insertAny :: "'n list \<Rightarrow> int \<Rightarrow> 'n \<Rightarrow> error + 'n list" where
  \<comment> \<open>Modelled from the spec: \<^verbatim>\<open>internal.insertAny(i, v)\<close> inserts \<open>v\<close> before position \<open>i\<close>,
      bounds-checked by the engine (\<open>i = size\<close> appends).\<close>
  "insertAny xs i v =
     (if 0 \<le> i \<and> i \<le> size xs then Inr (take (nat i) xs @ v # drop (nat i) xs)
      else Inl EngineError)"

subsection \<open>The adapter\<close>

text \<open>
  \<^verbatim>\<open>helpers\<close> holds the two injected marshalling functions. \<open>toBindingEmbedded\<close> stands for
  \<^verbatim>\<open>toBinding(item, () => [internal.insertEmbedded(index), true])\<close>: the engine allocates an
  embedded object at \<open>index\<close> and \<^verbatim>\<open>toBinding\<close> populates it from \<open>item\<close>; the field gives the
  populated object.
\<close>

record ('v, 'n) helpers =
  fromBinding :: "'n \<Rightarrow> 'v"
  toBinding :: "'v \<Rightarrow> 'n"
  toBindingEmbedded :: "'v \<Rightarrow> 'n"

text \<open>
  The state a List method reads and writes: whether \<^verbatim>\<open>this.realm\<close> is inside a write
  transaction, the content of \<^verbatim>\<open>this.internal\<close>, and the \<^verbatim>\<open>isEmbedded\<close> flag fixed by the
  constructor. A method returns \<open>Inl\<close> the exception it throws, or \<open>Inr\<close> its return value
  with the state it leaves.
\<close>

record 'n List =
  isInTransaction :: bool
  internal :: "'n list"
  isEmbedded :: bool

definition assert_inTransaction :: "'n List \<Rightarrow> error + unit" where
  \<comment> \<open>Modelled from the spec: \<^verbatim>\<open>assert.inTransaction(realm)\<close> fails with a transaction-state
      error unless the session is in an active write transaction.\<close>
  "assert_inTransaction l = (if isInTransaction l then Inr () else Inl TransactionStateError)"

text \<open>\<^verbatim>\<open>pop()\<close>: the JavaScript \<^verbatim>\<open>undefined\<close> a method returns by falling off its end is \<open>None\<close>.\<close>

definition pop :: "('v, 'n) helpers \<Rightarrow> 'n List \<Rightarrow> error + ('v option \<times> 'n List)" where
  "pop h l =
     (case assert_inTransaction l of
        Inl e \<Rightarrow> Inl e
      | Inr _ \<Rightarrow>
          (let lastIndex = size (internal l) - 1 in
           if lastIndex \<ge> 0 then
             (case getAny (internal l) lastIndex of
                Inl e \<Rightarrow> Inl e
              | Inr v \<Rightarrow>
                  (let result = fromBinding h v in
                   case remove (internal l) lastIndex of
                     Inl e \<Rightarrow> Inl e
                   | Inr xs \<Rightarrow> Inr (Some result, l\<lparr>internal := xs\<rparr>)))
           else Inr (None, l)))"

definition shift :: "('v, 'n) helpers \<Rightarrow> 'n List \<Rightarrow> error + ('v option \<times> 'n List)" where
  "shift h l =
     (case assert_inTransaction l of
        Inl e \<Rightarrow> Inl e
      | Inr _ \<Rightarrow>
          if size (internal l) > 0 then
            (case getAny (internal l) 0 of
               Inl e \<Rightarrow> Inl e
             | Inr v \<Rightarrow>
                 (let result = fromBinding h v in
                  case remove (internal l) 0 of
                    Inl e \<Rightarrow> Inl e
                  | Inr xs \<Rightarrow> Inr (Some result, l\<lparr>internal := xs\<rparr>)))
          else Inr (None, l))"

subsection \<open>splice\<close>

text \<open>The three loops of \<^verbatim>\<open>splice\<close>, in the order the method runs them.\<close>

function spliceRead ::
  "('v, 'n) helpers \<Rightarrow> 'n list \<Rightarrow> int \<Rightarrow> int \<Rightarrow> 'v list \<Rightarrow> error + 'v list" where
  \<comment> \<open>\<^verbatim>\<open>for (let i = start; i < end; i++) result.push(fromBinding(internal.getAny(i)))\<close>\<close>
  "spliceRead h xs i end' result =
     (if i < end' then
        (case getAny xs i of
           Inl e \<Rightarrow> Inl e
         | Inr v \<Rightarrow> spliceRead h xs (i + 1) end' (result @ [fromBinding h v]))
      else Inr result)"
  by pat_completeness auto
termination
  by (relation "measure (\<lambda>(h, xs, i, end', result). nat (end' - i))") auto

function spliceRemove :: "'n list \<Rightarrow> int \<Rightarrow> int \<Rightarrow> error + 'n list" where
  \<comment> \<open>\<^verbatim>\<open>for (let i = end - 1; i >= start; i--) internal.remove(i)\<close>\<close>
  "spliceRemove xs i start =
     (if i \<ge> start then
        (case remove xs i of
           Inl e \<Rightarrow> Inl e
         | Inr xs' \<Rightarrow> spliceRemove xs' (i - 1) start)
      else Inr xs)"
  by pat_completeness auto
termination
  by (relation "measure (\<lambda>(xs, i, start). nat (i - start + 1))") auto

declare spliceRead.simps [simp del] spliceRemove.simps [simp del]

fun spliceInsert ::
  "('v, 'n) helpers \<Rightarrow> bool \<Rightarrow> 'n list \<Rightarrow> int \<Rightarrow> int \<Rightarrow> 'v list \<Rightarrow> error + 'n list" where
  \<comment> \<open>\<^verbatim>\<open>for (const [offset, item] of items.entries())\<close>; with \<open>isEmbedded\<close> the engine inserts
      an embedded object at \<open>index\<close> (bounds-checked like \<open>insertAny\<close>) that \<open>toBinding\<close>
      populates\<close>
  "spliceInsert h isEmb xs start offset [] = Inr xs"
| "spliceInsert h isEmb xs start offset (item # items) =
     (let index = start + offset in
      case (if isEmb then insertAny xs index (toBindingEmbedded h item)
            else insertAny xs index (toBinding h item)) of
        Inl e \<Rightarrow> Inl e
      | Inr xs' \<Rightarrow> spliceInsert h isEmb xs' start (offset + 1) items)"

definition spliceStart :: "int \<Rightarrow> int \<Rightarrow> int" where
  \<comment> \<open>the value of \<^verbatim>\<open>start\<close> after the two \<^verbatim>\<open>if\<close> statements, for a list of \<open>n\<close> elements\<close>
  "spliceStart n start =
     (let start1 = (if start < 0 then n + start else start) in
      if start1 > n then n else start1)"

text \<open>
  \<open>deleteCount\<close> is \<open>None\<close> when the argument is omitted (\<^verbatim>\<open>typeof deleteCount\<close> is not
  \<^verbatim>\<open>"number"\<close>). \<^verbatim>\<open>assert.number(start)\<close> holds by the type of \<open>start\<close>.
\<close>

definition splice ::
  "('v, 'n) helpers \<Rightarrow> 'n List \<Rightarrow> int \<Rightarrow> int option \<Rightarrow> 'v list \<Rightarrow> error + ('v list \<times> 'n List)" where
  "splice h l start deleteCount items =
     (case assert_inTransaction l of
        Inl e \<Rightarrow> Inl e
      | Inr _ \<Rightarrow>
          (let start' = spliceStart (size (internal l)) start;
               end' = (case deleteCount of
                         Some n \<Rightarrow> min (start' + n) (size (internal l))
                       | None \<Rightarrow> size (internal l))
           in
           case spliceRead h (internal l) start' end' [] of
             Inl e \<Rightarrow> Inl e
           | Inr result \<Rightarrow>
               (case spliceRemove (internal l) (end' - 1) start' of
                  Inl e \<Rightarrow> Inl e
                | Inr xs \<Rightarrow>
                    (case spliceInsert h (isEmbedded l) xs start' 0 items of
                       Inl e \<Rightarrow> Inl e
                     | Inr ys \<Rightarrow> Inr (result, l\<lparr>internal := ys\<rparr>)))))"

text \<open>
  The standard removal and insertion semantics in the spec's words, that is, what
  \<^verbatim>\<open>Array.prototype.splice\<close> (the reference the method's comments cite) does: a negative
  start counts from the end and is clamped to \<open>0\<close>, a start above the length is the length,
  an omitted \<open>deleteCount\<close> removes through the end, a negative one removes nothing; the
  removed elements are returned in their order and the items are inserted at the start.
  \<open>splice\<close> above is compared with it.
\<close>

definition arraySpliceStart :: "int \<Rightarrow> int \<Rightarrow> int" where
  "arraySpliceStart n start = (if start < 0 then max (n + start) 0 else min start n)"

definition arraySplice :: "'a list \<Rightarrow> int \<Rightarrow> int option \<Rightarrow> 'a list \<Rightarrow> 'a list \<times> 'a list" where
  \<comment> \<open>the removed elements and the array afterwards\<close>
  "arraySplice xs start deleteCount items =
     (let n = int (length xs);
          s = nat (arraySpliceStart n start);
          k = (case deleteCount of
                 None \<Rightarrow> length xs - s
               | Some d \<Rightarrow> nat (min (max d 0) (n - int s)))
      in (take k (drop s xs), take s xs @ items @ drop (s + k) xs))"

section \<open>Dictionary (packages/realm/src/Dictionary.js)\<close>








section \<open>Properties of the schema normalization\<close>

subsection \<open>Suffixes\<close>

lemma endsWith_iff: "endsWith s suf \<longleftrightarrow> (\<exists>p. s = p @ suf)"
proof
  assume "endsWith s suf"
  then have "s = take (length s - length suf) s @ suf"
    by (metis append_take_drop_id endsWith_def)
  then show "\<exists>p. s = p @ suf" ..
next
  assume "\<exists>p. s = p @ suf"
  then show "endsWith s suf" by (auto simp: endsWith_def)
qed

lemma endsWith_snoc: "endsWith (s @ [c]) (u @ [d]) \<Longrightarrow> c = d"
  by (auto simp: endsWith_iff)

lemma question_no_collection_suffix:
  "\<not> endsWith (s @ ''?'') ''[]''" "\<not> endsWith (s @ ''?'') ''<>''" "\<not> endsWith (s @ ''?'') ''{}''"
  using endsWith_snoc [of s "CHR ''?''" "''[''" "CHR '']''"]
        endsWith_snoc [of s "CHR ''?''" "''<''" "CHR ''>''"]
        endsWith_snoc [of s "CHR ''?''" "''{''" "CHR ''}''"]
  by auto

lemma endsWith_question: "endsWith (s @ ''?'') ''?''"
  by (simp add: endsWith_def)

lemma substring_question: "substring (s @ ''?'') 0 (length (s @ ''?'') - 1) = s"
  by (simp add: substring_def)

lemma question_branch:
  "normalizePropertyType tm (s @ ''?'') allowObjectType =
     Inr (emptyObject\<lparr>optional := Some True, type := Some s\<rparr>)"
  by (subst normalizePropertyType.simps)
     (simp only: question_no_collection_suffix endsWith_question substring_question if_True if_False)

subsection \<open>The \<open>?\<close> suffix\<close>

text \<open>
  C2. For a type string ending in \<open>?\<close> the parser should strip the suffix, parse the
  remaining prefix recursively and return that parse with \<open>optional\<close> set to true, as the
  branches for \<open>[]\<close>, \<open><>\<close> and \<open>{}\<close> parse their prefix and as the comment in
  \<open>normalizePropertySchema\<close> expects (\<open>normalizePropertyType\<close> moves an object linked type
  into \<open>objectType\<close>). The \<open>?\<close> branch has no recursive call and returns the prefix
  unparsed as \<open>type\<close>: \<^verbatim>\<open>parse("Person?")\<close> is \<^verbatim>\<open>{optional: true, type: "Person"}\<close>, where the
  parse of \<^verbatim>\<open>"Person"\<close> with \<open>optional\<close> set is
  \<^verbatim>\<open>{type: "object", objectType: "Person", optional: true}\<close>, and the object declaration
  \<^verbatim>\<open>{type: "Person?"}\<close> is accepted with the canonical \<open>type\<close> \<^verbatim>\<open>"Person"\<close> and no \<open>objectType\<close>.
  For \<^verbatim>\<open>"int?"\<close> the two agree: \<^verbatim>\<open>parse("int?")\<close> is \<^verbatim>\<open>{optional: true, type: "int"}\<close>.
\<close>

theorem question_suffix_not_recursive:
  "normalizePropertyType TYPE_MAPPINGS ''Person?'' True \<noteq>
     map_sum id (\<lambda>r. r\<lparr>optional := Some True\<rparr>)
       (normalizePropertyType TYPE_MAPPINGS ''Person'' True) \<and>
   normalizePropertyType TYPE_MAPPINGS ''Person?'' True =
     Inr \<lparr>name = None, type = Some ''Person'', objectType = None, optional = Some True,
          indexed = None, mapTo = None, property = None, default' = None\<rparr> \<and>
   normalizePropertyType TYPE_MAPPINGS ''Person'' True =
     Inr \<lparr>name = None, type = Some ''object'', objectType = Some ''Person'',
          optional = Some True, indexed = None, mapTo = None, property = None,
          default' = None\<rparr> \<and>
   normalizePropertySchema TYPE_MAPPINGS ''owner''
       (Object (emptyObject\<lparr>type := Some ''Person?''\<rparr>)) =
     Inr \<lparr>name = Some ''owner'', type = Some ''Person'', objectType = None,
          optional = Some True, indexed = Some False, mapTo = Some ''owner'',
          property = None, default' = None\<rparr> \<and>
   normalizePropertyType TYPE_MAPPINGS ''int?'' True =
     Inr \<lparr>name = None, type = Some ''int'', objectType = None, optional = Some True,
          indexed = None, mapTo = None, property = None, default' = None\<rparr> \<and>
   map_sum id (\<lambda>r. r\<lparr>optional := Some True\<rparr>)
       (normalizePropertyType TYPE_MAPPINGS ''int'' True) =
     Inr \<lparr>name = None, type = Some ''int'', objectType = None, optional = Some True,
          indexed = None, mapTo = None, property = None, default' = None\<rparr>"
  by (simp add: normalizePropertyType.simps endsWith_def substring_def TYPE_MAPPINGS_def
        emptyObject_def spread_def orElse_def removeUndefinedValues_def)

subsection \<open>Mixed values\<close>

text \<open>
  C1. A canonical property schema with \<open>type\<close> or \<open>objectType\<close> \<^verbatim>\<open>"mixed"\<close> should never have
  \<open>optional\<close> false. The code checks \<^verbatim>\<open>mergedSchema.optional !== false\<close> before it fills in
  the default \<^verbatim>\<open>optional: false\<close>, so a declaration that gives \<^verbatim>\<open>objectType: "mixed"\<close> and no
  \<open>optional\<close> passes the check and comes out with \<open>optional\<close> false: the list of mixed
  values declared as \<^verbatim>\<open>{type: "list", objectType: "mixed"}\<close> is accepted with
  \<open>optional = false\<close>, while the same list declared as \<^verbatim>\<open>"mixed[]"\<close> has \<open>optional = true\<close>.
\<close>

theorem mixed_list_without_optional:
  "normalizePropertySchema TYPE_MAPPINGS ''values''
       (Object (emptyObject\<lparr>type := Some ''list'', objectType := Some ''mixed''\<rparr>)) =
     Inr \<lparr>name = Some ''values'', type = Some ''list'', objectType = Some ''mixed'',
          optional = Some False, indexed = Some False, mapTo = Some ''values'',
          property = None, default' = None\<rparr> \<and>
   normalizePropertySchema TYPE_MAPPINGS ''values'' (Shorthand ''mixed[]'') =
     Inr \<lparr>name = Some ''values'', type = Some ''list'', objectType = Some ''mixed'',
          optional = Some True, indexed = Some False, mapTo = Some ''values'',
          property = None, default' = None\<rparr>"
  by (simp add: normalizePropertyType.simps endsWith_def substring_def TYPE_MAPPINGS_def
        emptyObject_def spread_def orElse_def removeUndefinedValues_def truthy_def toBoolean_def)

subsection \<open>Validation\<close>

text \<open>
  C5. \<open>validateCanonicalPropertySchema\<close> raises a SchemaError exactly when the property is
  a list of lists, or a list whose \<open>objectType\<close> is not a primitive type and whose
  \<open>optional\<close> is true, or has the empty string as \<open>objectType\<close>; in every other case it
  returns normally. It rejects \<^verbatim>\<open>{type:"list", objectType:"Person", optional:true}\<close> with a
  SchemaError and accepts \<^verbatim>\<open>{type:"list", objectType:"int", optional:true}\<close>.
\<close>

theorem validateCanonicalPropertySchema_rejects_iff:
  "((\<exists>m. validateCanonicalPropertySchema objectSchemaName p = Inl (SchemaError m)) \<longleftrightarrow>
      (type p = Some ''list'' \<and> objectType p = Some ''list'') \<or>
      (type p = Some ''list'' \<and> \<not> isPrimitive (objectType p) \<and> optional p = Some True) \<or>
      objectType p = Some []) \<and>
   ((validateCanonicalPropertySchema objectSchemaName p = Inr ()) \<longleftrightarrow>
      \<not> ((type p = Some ''list'' \<and> objectType p = Some ''list'') \<or>
         (type p = Some ''list'' \<and> \<not> isPrimitive (objectType p) \<and> optional p = Some True) \<or>
         objectType p = Some [])) \<and>
   (\<exists>m. validateCanonicalPropertySchema objectSchemaName
      (emptyObject\<lparr>type := Some ''list'', objectType := Some ''Person'', optional := Some True\<rparr>)
        = Inl (SchemaError m)) \<and>
   validateCanonicalPropertySchema objectSchemaName
      (emptyObject\<lparr>type := Some ''list'', objectType := Some ''int'', optional := Some True\<rparr>)
        = Inr ()"
  by (auto simp: validateCanonicalPropertySchema_def toBoolean_def isPrimitive_def
        PRIMITIVE_TYPES_def emptyObject_def split: option.splits)

subsection \<open>The legacy array of properties\<close>

lemma update_fresh: "k \<notin> fst ` set al \<Longrightarrow> AList.update k v al = al @ [(k, v)]"
  by (induction al) auto

lemma foldl_update_distinct:
  "distinct (map fst (acc @ es)) \<Longrightarrow>
     foldl (\<lambda>obj e. AList.update (fst e) (snd e) obj) acc es = acc @ es"
proof (induction es arbitrary: acc)
  case Nil
  then show ?case by simp
next
  case (Cons e es)
  from Cons.prems have fresh: "fst e \<notin> fst ` set acc" by auto
  from Cons.prems have "distinct (map fst ((acc @ [e]) @ es))" by simp
  from Cons.IH [OF this] show ?case
    by (simp add: update_fresh [OF fresh])
qed

lemma ownEntriesOrder_no_index:
  "\<forall>e\<in>set obj. \<not> isArrayIndex (fst e) \<Longrightarrow> ownEntriesOrder obj = obj"
  by (simp add: ownEntriesOrder_def filter_empty_conv filter_id_conv)

lemma fromEntries_distinct:
  "distinct (map fst es) \<Longrightarrow> \<forall>e\<in>set es. \<not> isArrayIndex (fst e) \<Longrightarrow> fromEntries es = es"
  using foldl_update_distinct [of "[]" es]
  by (simp add: fromEntries_def ownEntriesOrder_no_index)

lemma mappingForm_entryOfLegacy: "mappingForm ps = map entryOfLegacy ps"
  by (simp add: mappingForm_def entryOfLegacy_def)

text \<open>
  C6. When \<open>properties\<close> is an array of \<^verbatim>\<open>{name, ...}\<close> entries, \<open>normalizeObjectSchema\<close> fails
  with "Array of properties are no longer supported" if the compatibility flag is off. If
  the flag is on, the result is the result for the same declaration with \<open>properties\<close>
  rewritten to the object built from the entries \<^verbatim>\<open>[name, rest]\<close>; when the names are
  distinct and none is an array index, that object is the mapping form \<^verbatim>\<open>{name: rest}\<close> with
  the same entries in the same order.
\<close>

theorem legacy_array_of_properties:
  "normalizeObjectSchema False tm (ObjectLike (a\<lparr>properties := PropertiesArray ps\<rparr>)) =
     Inl (SchemaError ''Array of properties are no longer supported'') \<and>
   normalizeObjectSchema True tm (ObjectLike (a\<lparr>properties := PropertiesArray ps\<rparr>)) =
     normalizeObjectSchema True tm
       (ObjectLike (a\<lparr>properties := PropertiesObject (fromEntries (mappingForm ps))\<rparr>)) \<and>
   (distinct (map (\<lambda>p. str (name p)) ps) \<and> (\<forall>p\<in>set ps. \<not> isArrayIndex (str (name p))) \<longrightarrow>
    normalizeObjectSchema True tm (ObjectLike (a\<lparr>properties := PropertiesArray ps\<rparr>)) =
      normalizeObjectSchema True tm (ObjectLike (a\<lparr>properties := PropertiesObject (mappingForm ps)\<rparr>)))"
proof (intro conjI impI)
  show "normalizeObjectSchema False tm (ObjectLike (a\<lparr>properties := PropertiesArray ps\<rparr>)) =
     Inl (SchemaError ''Array of properties are no longer supported'')"
    by simp
  show rewritten: "normalizeObjectSchema True tm (ObjectLike (a\<lparr>properties := PropertiesArray ps\<rparr>)) =
     normalizeObjectSchema True tm
       (ObjectLike (a\<lparr>properties := PropertiesObject (fromEntries (mappingForm ps))\<rparr>))"
    by (simp add: mappingForm_entryOfLegacy)
  assume "distinct (map (\<lambda>p. str (name p)) ps) \<and> (\<forall>p\<in>set ps. \<not> isArrayIndex (str (name p)))"
  then have "distinct (map fst (mappingForm ps))" "\<forall>e\<in>set (mappingForm ps). \<not> isArrayIndex (fst e)"
    by (simp_all add: mappingForm_def comp_def)
  then have "fromEntries (mappingForm ps) = mappingForm ps"
    by (rule fromEntries_distinct)
  with rewritten show
    "normalizeObjectSchema True tm (ObjectLike (a\<lparr>properties := PropertiesArray ps\<rparr>)) =
      normalizeObjectSchema True tm (ObjectLike (a\<lparr>properties := PropertiesObject (mappingForm ps)\<rparr>))"
    by simp
qed

lemma normalize_legacyTask_mapping:
  "normalizeObjectSchema True TYPE_MAPPINGS
     (ObjectLike (legacyTask\<lparr>properties := PropertiesObject
        [(''id'', Object (emptyObject\<lparr>type := Some ''int''\<rparr>)),
         (''title'', Object (emptyObject\<lparr>type := Some ''string''\<rparr>))]\<rparr>)) =
   Inr \<lparr>constructor = None, name' = ''Task'', primaryKey = None,
        asymmetric = Some False, embedded = Some False,
        properties =
          [(''id'', \<lparr>name = Some ''id'', type = Some ''int'', objectType = None,
                     optional = Some False, indexed = Some False, mapTo = Some ''id'',
                     property = None, default' = None\<rparr>),
           (''title'', \<lparr>name = Some ''title'', type = Some ''string'', objectType = None,
                     optional = Some False, indexed = Some False, mapTo = Some ''title'',
                     property = None, default' = None\<rparr>)]\<rparr>"
  by code_simp

theorem legacy_array_of_properties_witness:
  "distinct [''id'', ''title''] \<and> \<not> isArrayIndex ''id'' \<and> \<not> isArrayIndex ''title'' \<and>
   normalizeObjectSchema False TYPE_MAPPINGS (ObjectLike legacyTask) =
     Inl (SchemaError ''Array of properties are no longer supported'') \<and>
   normalizeObjectSchema True TYPE_MAPPINGS (ObjectLike legacyTask) =
     Inr \<lparr>constructor = None, name' = ''Task'', primaryKey = None,
          asymmetric = Some False, embedded = Some False,
          properties =
            [(''id'', \<lparr>name = Some ''id'', type = Some ''int'', objectType = None,
                       optional = Some False, indexed = Some False, mapTo = Some ''id'',
                       property = None, default' = None\<rparr>),
             (''title'', \<lparr>name = Some ''title'', type = Some ''string'', objectType = None,
                       optional = Some False, indexed = Some False, mapTo = Some ''title'',
                       property = None, default' = None\<rparr>)]\<rparr>"
proof -
  let ?ps = "[emptyObject\<lparr>name := Some ''id'', type := Some ''int''\<rparr>,
              emptyObject\<lparr>name := Some ''title'', type := Some ''string''\<rparr>]"
  have idx: "\<not> isArrayIndex ''id''" "\<not> isArrayIndex ''title''"
    by (simp_all add: isArrayIndex_def isDigit_def)
  have self: "legacyTask\<lparr>properties := PropertiesArray ?ps\<rparr> = legacyTask"
    by (simp add: legacyTask_def)
  have names: "distinct (map (\<lambda>p. str (name p)) ?ps) \<and> (\<forall>p\<in>set ?ps. \<not> isArrayIndex (str (name p)))"
    using idx by (simp add: emptyObject_def str_def)
  have form: "mappingForm ?ps =
      [(''id'', Object (emptyObject\<lparr>type := Some ''int''\<rparr>)),
       (''title'', Object (emptyObject\<lparr>type := Some ''string''\<rparr>))]"
    by (simp add: mappingForm_def emptyObject_def str_def)
  from legacy_array_of_properties [where tm = TYPE_MAPPINGS and a = legacyTask and ps = ?ps] names
  have "normalizeObjectSchema False TYPE_MAPPINGS (ObjectLike legacyTask) =
          Inl (SchemaError ''Array of properties are no longer supported'')"
    and "normalizeObjectSchema True TYPE_MAPPINGS (ObjectLike legacyTask) =
          normalizeObjectSchema True TYPE_MAPPINGS
            (ObjectLike (legacyTask\<lparr>properties := PropertiesObject (mappingForm ?ps)\<rparr>))"
    unfolding self by blast+
  then show ?thesis
    using idx by (simp only: form normalize_legacyTask_mapping distinct.simps list.set
          insert_iff empty_iff list.inject char.inject simp_thms)
qed

subsection \<open>Looking a property up in the result\<close>

lemma map_of_foldl_update:
  "map_of (foldl (\<lambda>obj e. AList.update (fst e) (snd e) obj) acc es) = map_of acc ++ map_of (rev es)"
  by (induction es arbitrary: acc)
     (auto simp: update_conv' map_add_def fun_eq_iff split: option.splits)

lemma distinct_foldl_update:
  "distinct (map fst acc) \<Longrightarrow>
     distinct (map fst (foldl (\<lambda>obj e. AList.update (fst e) (snd e) obj) acc es))"
  by (induction es arbitrary: acc) (simp_all add: distinct_update)

lemma map_of_ownEntriesOrder:
  assumes d: "distinct (map fst obj)"
  shows "map_of (ownEntriesOrder obj) = map_of obj"
proof -
  have inj: "inj_on fst (set obj)" and dist: "distinct obj"
    using d by (simp_all add: distinct_map)
  have "distinct (map fst (ownEntriesOrder obj))"
    unfolding ownEntriesOrder_def distinct_map
    using inj dist by (auto simp: inj_on_def)
  moreover have "set (ownEntriesOrder obj) = set obj"
    by (auto simp: ownEntriesOrder_def)
  ultimately show ?thesis
    using d by (simp add: map_of_inject_set)
qed

lemma map_of_fromEntries: "map_of (fromEntries es) = map_of (rev es)"
  unfolding fromEntries_def
  by (simp add: map_of_ownEntriesOrder distinct_foldl_update map_of_foldl_update)

lemma keys_fromEntries: "fst ` set (fromEntries es) = fst ` set es"
  using map_of_fromEntries [of es]
  by (metis dom_map_of_conv_image_fst set_rev)

subsection \<open>The primary key\<close>

lemma normalizeProperty_result:
  "normalizeProperty tm a e = Inr r \<Longrightarrow>
     fst r = fst e \<and> (Some (fst e) = primaryKey a \<longrightarrow> indexed (snd r) = Some True)"
  by (auto simp: normalizeProperty_def Let_def split: sum.splits if_splits)

lemma mapE_normalizeProperty:
  "mapE (normalizeProperty tm a) entries = Inr canonical \<Longrightarrow>
     map fst canonical = map fst entries \<and>
     (\<forall>r\<in>set canonical. Some (fst r) = primaryKey a \<longrightarrow> indexed (snd r) = Some True)"
proof (induction entries arbitrary: canonical)
  case Nil
  then show ?case by simp
next
  case (Cons e entries)
  from Cons.prems obtain r rs where
    r: "normalizeProperty tm a e = Inr r" and rs: "mapE (normalizeProperty tm a) entries = Inr rs"
    and c: "canonical = r # rs"
    by (auto split: sum.splits)
  from normalizeProperty_result [OF r] Cons.IH [OF rs] c show ?case by auto
qed

lemma objectLike_primaryKey_indexed:
  assumes ok: "normalizeObjectSchema fl tm (ObjectLike a) = Inr s"
    and pk: "primaryKey a = Some pk"
    and mem: "pk \<in> propertyNames (properties a)"
  shows "\<exists>p. map_of (properties s) pk = Some p \<and> indexed p = Some True"
proof -
  have main: "\<exists>p. map_of (properties s) pk = Some p \<and> indexed p = Some True"
    if ok': "normalizeObjectSchema fl tm (ObjectLike b) = Inr s"
      and b: "properties b = PropertiesObject entries"
      and pk': "primaryKey b = Some pk" and mem': "pk \<in> fst ` set entries"
    for b entries
  proof -
    from ok' b obtain canonical where
      m: "mapE (normalizeProperty tm b) entries = Inr canonical"
      and s: "properties s = fromEntries canonical"
      by (auto split: sum.splits)
    from mapE_normalizeProperty [OF m] have
      keys: "map fst canonical = map fst entries"
      and idx: "\<forall>r\<in>set canonical. Some (fst r) = primaryKey b \<longrightarrow> indexed (snd r) = Some True"
      by simp_all
    from keys mem' have "pk \<in> fst ` set (rev canonical)"
      by (metis list.set_map set_rev)
    then obtain p where p: "map_of (rev canonical) pk = Some p"
      by (metis map_of_eq_None_iff not_Some_eq)
    then have "(pk, p) \<in> set canonical"
      using map_of_SomeD by fastforce
    with idx pk' have "indexed p = Some True" by fastforce
    with p s show ?thesis by (simp add: map_of_fromEntries)
  qed
  show ?thesis
  proof (cases "properties a")
    case (PropertiesObject entries)
    with main [OF ok PropertiesObject pk] mem show ?thesis
      by (simp add: propertyNames_def)
  next
    case (PropertiesArray ps)
    let ?b = "a\<lparr>properties := PropertiesObject (fromEntries (map entryOfLegacy ps))\<rparr>"
    from ok PropertiesArray have ok': "normalizeObjectSchema fl tm (ObjectLike ?b) = Inr s"
      by (simp split: if_splits)
    have "pk \<in> fst ` set (fromEntries (map entryOfLegacy ps))"
      using mem PropertiesArray
      by (auto simp: keys_fromEntries propertyNames_def entryOfLegacy_def image_iff)
    from main [OF ok' _ _ this] pk show ?thesis by simp
  qed
qed

text \<open>
  C7. If \<open>normalizeObjectSchema\<close> accepts a declaration (an object, in either form of
  \<open>properties\<close>, or a class with a static schema) whose \<open>primaryKey\<close> is the name of one of its
  properties, then the canonical schema has a property of that name and its \<open>indexed\<close> is
  true, whatever the raw property declared.
\<close>

theorem primaryKey_indexed:
  assumes "normalizeObjectSchema fl tm a = Inr s"
    and "declaredSchema a = Some d"
    and "primaryKey d = Some pk"
    and "pk \<in> propertyNames (properties d)"
  shows "\<exists>p. map_of (properties s) pk = Some p \<and> indexed p = Some True"
proof (cases a)
  case (ObjectLike b)
  with assms(2) have bd: "b = d" by simp
  show ?thesis
    using objectLike_primaryKey_indexed [OF assms(1) [unfolded ObjectLike bd] assms(3,4)] .
next
  case (Function c)
  with assms obtain r where
    r: "normalizeObjectSchema fl tm (ObjectLike d) = Inr r" and s: "s = r\<lparr>constructor := Some (ref c)\<rparr>"
    by (auto split: if_splits option.splits sum.splits)
  from objectLike_primaryKey_indexed [OF r assms(3,4)] s show ?thesis by simp
qed

lemma normalize_taskDeclaration:
  "normalizeObjectSchema False TYPE_MAPPINGS taskDeclaration =
     Inr \<lparr>constructor = None, name' = ''Task'', primaryKey = Some ''id'',
          asymmetric = Some False, embedded = Some False,
          properties =
            [(''id'', \<lparr>name = Some ''id'', type = Some ''int'', objectType = None,
                       optional = Some False, indexed = Some True, mapTo = Some ''id'',
                       property = None, default' = None\<rparr>),
             (''title'', \<lparr>name = Some ''title'', type = Some ''string'', objectType = None,
                       optional = Some False, indexed = Some False, mapTo = Some ''title'',
                       property = None, default' = None\<rparr>)]\<rparr>"
  by code_simp

theorem primaryKey_indexed_witness:
  "normalizeObjectSchema False TYPE_MAPPINGS taskDeclaration =
     Inr \<lparr>constructor = None, name' = ''Task'', primaryKey = Some ''id'',
          asymmetric = Some False, embedded = Some False,
          properties =
            [(''id'', \<lparr>name = Some ''id'', type = Some ''int'', objectType = None,
                       optional = Some False, indexed = Some True, mapTo = Some ''id'',
                       property = None, default' = None\<rparr>),
             (''title'', \<lparr>name = Some ''title'', type = Some ''string'', objectType = None,
                       optional = Some False, indexed = Some False, mapTo = Some ''title'',
                       property = None, default' = None\<rparr>)]\<rparr> \<and>
   ''id'' \<in> propertyNames
      (PropertiesObject [(''id'', Shorthand ''int''), (''title'', Shorthand ''string'')]) \<and>
   (\<exists>p. map_of
          [(''id'', \<lparr>name = Some ''id'', type = Some ''int'', objectType = None,
                     optional = Some False, indexed = Some True, mapTo = Some ''id'',
                     property = None, default' = None\<rparr>),
           (''title'', \<lparr>name = Some ''title'', type = Some ''string'', objectType = None,
                     optional = Some False, indexed = Some False, mapTo = Some ''title'',
                     property = None, default' = None\<rparr>)] ''id'' = Some p \<and>
        indexed p = Some True)"
proof -
  have d: "declaredSchema taskDeclaration =
      Some \<lparr>constructor = None, name' = ''Task'', primaryKey = Some ''id'',
        asymmetric = None, embedded = None,
        properties = PropertiesObject
          [(''id'', Shorthand ''int''), (''title'', Shorthand ''string'')]\<rparr>"
    by (simp add: taskDeclaration_def)
  show ?thesis
    using primaryKey_indexed [OF normalize_taskDeclaration d, of "''id''"]
          normalize_taskDeclaration
    by (simp add: propertyNames_def)
qed

subsection \<open>End to end\<close>

lemma no_array_index: "\<not> isArrayIndex ''name''" "\<not> isArrayIndex ''age''" "\<not> isArrayIndex ''friends''"
  by (simp_all add: isArrayIndex_def isDigit_def)

lemma suffixes_of_the_example:
  "\<not> endsWith ''string'' ''[]''" "\<not> endsWith ''string'' ''<>''" "\<not> endsWith ''string'' ''{}''"
  "\<not> endsWith ''string'' ''?''"
  "\<not> endsWith ''int'' ''[]''" "\<not> endsWith ''int'' ''<>''" "\<not> endsWith ''int'' ''{}''"
  "\<not> endsWith ''int'' ''?''"
  "\<not> endsWith ''list'' ''[]''" "\<not> endsWith ''list'' ''<>''" "\<not> endsWith ''list'' ''{}''"
  "\<not> endsWith ''list'' ''?''"
  "\<not> endsWith ''Person'' ''[]''" "\<not> endsWith ''Person'' ''<>''" "\<not> endsWith ''Person'' ''{}''"
  "\<not> endsWith ''Person'' ''?''"
  "\<not> endsWith ''int?'' ''[]''" "\<not> endsWith ''int?'' ''<>''" "\<not> endsWith ''int?'' ''{}''"
  "endsWith ''int?'' ''?''" "endsWith ''Person[]'' ''[]''"
  by (simp_all add: endsWith_def)

text \<open>
  C4. Normalizing
  \<^verbatim>\<open>{name:"Person", properties:{name:"string", age:"int?", friends:"Person[]"}}\<close> succeeds, with
  \<open>properties.age\<close> equal to
  \<^verbatim>\<open>{type:"int", optional:true, indexed:false, mapTo:"age", name:"age"}\<close> and
  \<open>properties.friends\<close> equal to
  \<^verbatim>\<open>{type:"list", objectType:"Person", optional:false, indexed:false, mapTo:"friends", name:"friends"}\<close>.
  This holds for every \<^verbatim>\<open>TYPE_MAPPINGS\<close> that has the keys \<^verbatim>\<open>"string"\<close>, \<^verbatim>\<open>"int"\<close> and \<^verbatim>\<open>"list"\<close>
  and not the key \<^verbatim>\<open>"Person"\<close>, and for either value of the compatibility flag.
\<close>

theorem normalizeObjectSchema_person:
  assumes "''string'' \<in> tm" "''int'' \<in> tm" "''list'' \<in> tm" "''Person'' \<notin> tm"
  shows "\<exists>s. normalizeObjectSchema fl tm personDeclaration = Inr s \<and>
     map_of (properties s) ''age'' =
       Some \<lparr>name = Some ''age'', type = Some ''int'', objectType = None,
             optional = Some True, indexed = Some False, mapTo = Some ''age'',
             property = None, default' = None\<rparr> \<and>
     map_of (properties s) ''friends'' =
       Some \<lparr>name = Some ''friends'', type = Some ''list'', objectType = Some ''Person'',
             optional = Some False, indexed = Some False, mapTo = Some ''friends'',
             property = None, default' = None\<rparr>"
proof -
  have t1: "normalizePropertyType tm ''string'' b = Inr (emptyObject\<lparr>type := Some ''string''\<rparr>)" for b
    using assms by (subst normalizePropertyType.simps) (simp add: suffixes_of_the_example)
  have t2: "normalizePropertyType tm ''int'' b = Inr (emptyObject\<lparr>type := Some ''int''\<rparr>)" for b
    using assms by (subst normalizePropertyType.simps) (simp add: suffixes_of_the_example)
  have t3: "normalizePropertyType tm ''list'' b = Inr (emptyObject\<lparr>type := Some ''list''\<rparr>)" for b
    using assms by (subst normalizePropertyType.simps) (simp add: suffixes_of_the_example)
  have t4: "normalizePropertyType tm ''Person'' b =
      Inr (emptyObject\<lparr>type := Some ''object'', objectType := Some ''Person'',
                        optional := Some True\<rparr>)" for b
    using assms by (subst normalizePropertyType.simps) (simp add: suffixes_of_the_example)
  have t5: "normalizePropertyType tm ''int?'' b =
      Inr (emptyObject\<lparr>optional := Some True, type := Some ''int''\<rparr>)" for b
    by (subst normalizePropertyType.simps) (simp add: suffixes_of_the_example substring_def)
  have t6: "normalizePropertyType tm ''Person[]'' True =
      Inr (emptyObject\<lparr>type := Some ''list'', objectType := Some ''Person'',
                        optional := Some False\<rparr>)"
    by (subst normalizePropertyType.simps)
       (simp add: suffixes_of_the_example substring_def t4 emptyObject_def truthy_def)
  have p1: "normalizeProperty tm d (''name'', Shorthand ''string'') =
      Inr (''name'',
           \<lparr>name = Some ''name'', type = Some ''string'', objectType = None,
            optional = Some False, indexed = Some False, mapTo = Some ''name'',
            property = None, default' = None\<rparr>)" if "primaryKey d = None" for d
    using that
    by (simp add: normalizeProperty_def t1 emptyObject_def spread_def orElse_def
          removeUndefinedValues_def validateCanonicalPropertySchema_def)
  have p2: "normalizeProperty tm d (''age'', Shorthand ''int?'') =
      Inr (''age'',
           \<lparr>name = Some ''age'', type = Some ''int'', objectType = None,
            optional = Some True, indexed = Some False, mapTo = Some ''age'',
            property = None, default' = None\<rparr>)" if "primaryKey d = None" for d
    using that
    by (simp add: normalizeProperty_def t5 t2 emptyObject_def spread_def orElse_def
          removeUndefinedValues_def validateCanonicalPropertySchema_def)
  have p3: "normalizeProperty tm d (''friends'', Shorthand ''Person[]'') =
      Inr (''friends'',
           \<lparr>name = Some ''friends'', type = Some ''list'', objectType = Some ''Person'',
            optional = Some False, indexed = Some False, mapTo = Some ''friends'',
            property = None, default' = None\<rparr>)" if "primaryKey d = None" for d
    using that
    by (simp add: normalizeProperty_def t6 t3 emptyObject_def spread_def orElse_def
          removeUndefinedValues_def validateCanonicalPropertySchema_def toBoolean_def)
  show ?thesis
    by (simp add: personDeclaration_def p1 p2 p3 fromEntries_def ownEntriesOrder_def
          no_array_index toBoolean_def)
qed

theorem normalizeObjectSchema_person_witness:
  "''string'' \<in> TYPE_MAPPINGS \<and> ''int'' \<in> TYPE_MAPPINGS \<and> ''list'' \<in> TYPE_MAPPINGS \<and>
   ''Person'' \<notin> TYPE_MAPPINGS \<and>
   (\<exists>s. normalizeObjectSchema False TYPE_MAPPINGS personDeclaration = Inr s \<and>
     map_of (properties s) ''age'' =
       Some \<lparr>name = Some ''age'', type = Some ''int'', objectType = None,
             optional = Some True, indexed = Some False, mapTo = Some ''age'',
             property = None, default' = None\<rparr> \<and>
     map_of (properties s) ''friends'' =
       Some \<lparr>name = Some ''friends'', type = Some ''list'', objectType = Some ''Person'',
             optional = Some False, indexed = Some False, mapTo = Some ''friends'',
             property = None, default' = None\<rparr>)"
proof -
  have tm: "''string'' \<in> TYPE_MAPPINGS" "''int'' \<in> TYPE_MAPPINGS" "''list'' \<in> TYPE_MAPPINGS"
    "''Person'' \<notin> TYPE_MAPPINGS"
    by (simp_all add: TYPE_MAPPINGS_def)
  from normalizeObjectSchema_person [OF tm, of False] tm show ?thesis by blast
qed

section \<open>Properties of List\<close>

lemma getAny_last: "xs \<noteq> [] \<Longrightarrow> getAny xs (size xs - 1) = Inr (last xs)"
  by (cases xs rule: rev_cases) (simp_all add: getAny_def size_def nth_append)

lemma remove_last: "xs \<noteq> [] \<Longrightarrow> remove xs (size xs - 1) = Inr (butlast xs)"
  by (cases xs rule: rev_cases) (simp_all add: remove_def size_def)

lemma getAny_first: "getAny (x # xs) 0 = Inr x"
  by (simp add: getAny_def size_def)

lemma remove_first: "remove (x # xs) 0 = Inr xs"
  by (simp add: remove_def size_def)

text \<open>
  C8. Inside a write transaction, \<open>pop\<close> on an empty list returns \<^verbatim>\<open>undefined\<close> and leaves the
  list as it is; on a non-empty list it returns \<open>fromBinding\<close> of the last element and
  removes that element. \<open>shift\<close> does the same with the first element.
\<close>

theorem pop_shift_in_transaction:
  "isInTransaction l \<Longrightarrow>
     (internal l = [] \<longrightarrow> pop h l = Inr (None, l) \<and> shift h l = Inr (None, l)) \<and>
     (internal l \<noteq> [] \<longrightarrow>
        pop h l = Inr (Some (fromBinding h (last (internal l))),
                       l\<lparr>internal := butlast (internal l)\<rparr>) \<and>
        shift h l = Inr (Some (fromBinding h (hd (internal l))),
                         l\<lparr>internal := tl (internal l)\<rparr>))"
proof (cases "internal l")
  case Nil
  assume "isInTransaction l"
  with Nil show ?thesis
    by (simp add: pop_def shift_def assert_inTransaction_def size_def)
next
  case (Cons x xs)
  assume tx: "isInTransaction l"
  have ne: "internal l \<noteq> []" using Cons by simp
  have "pop h l = Inr (Some (fromBinding h (last (internal l))),
                       l\<lparr>internal := butlast (internal l)\<rparr>)"
    using tx ne getAny_last [OF ne] remove_last [OF ne]
    by (simp add: pop_def assert_inTransaction_def Let_def size_def)
  moreover have "shift h l = Inr (Some (fromBinding h (hd (internal l))),
                         l\<lparr>internal := tl (internal l)\<rparr>)"
    using tx Cons getAny_first [of x xs] remove_first [of x xs]
    by (simp add: shift_def assert_inTransaction_def Let_def size_def)
  ultimately show ?thesis using ne by simp
qed

theorem pop_shift_in_transaction_witness:
  "pop \<lparr>fromBinding = (\<lambda>n::nat. int n), toBinding = nat, toBindingEmbedded = nat\<rparr>
       \<lparr>isInTransaction = True, internal = [1, 2, 3], isEmbedded = False\<rparr>
     = Inr (Some 3, \<lparr>isInTransaction = True, internal = [1, 2], isEmbedded = False\<rparr>) \<and>
   shift \<lparr>fromBinding = (\<lambda>n::nat. int n), toBinding = nat, toBindingEmbedded = nat\<rparr>
       \<lparr>isInTransaction = True, internal = [1, 2, 3], isEmbedded = False\<rparr>
     = Inr (Some 1, \<lparr>isInTransaction = True, internal = [2, 3], isEmbedded = False\<rparr>) \<and>
   pop \<lparr>fromBinding = (\<lambda>n::nat. int n), toBinding = nat, toBindingEmbedded = nat\<rparr>
       \<lparr>isInTransaction = True, internal = [], isEmbedded = False\<rparr>
     = Inr (None, \<lparr>isInTransaction = True, internal = [], isEmbedded = False\<rparr>) \<and>
   shift \<lparr>fromBinding = (\<lambda>n::nat. int n), toBinding = nat, toBindingEmbedded = nat\<rparr>
       \<lparr>isInTransaction = True, internal = [], isEmbedded = False\<rparr>
     = Inr (None, \<lparr>isInTransaction = True, internal = [], isEmbedded = False\<rparr>)"
  using pop_shift_in_transaction
          [of "\<lparr>isInTransaction = True, internal = [1, 2, 3::nat], isEmbedded = False\<rparr>"
              "\<lparr>fromBinding = (\<lambda>n::nat. int n), toBinding = nat, toBindingEmbedded = nat\<rparr>"]
        pop_shift_in_transaction
          [of "\<lparr>isInTransaction = True, internal = ([]::nat list), isEmbedded = False\<rparr>"
              "\<lparr>fromBinding = (\<lambda>n::nat. int n), toBinding = nat, toBindingEmbedded = nat\<rparr>"]
  by simp

text \<open>
  C10. \<open>pop\<close> and \<open>shift\<close> check for the write transaction before they look at the list:
  outside a transaction both raise the transaction-state error, whatever the list holds,
  so in particular on the empty list, where they would otherwise return \<^verbatim>\<open>undefined\<close>.
\<close>

theorem pop_shift_outside_transaction:
  "\<not> isInTransaction l \<Longrightarrow>
     pop h l = Inl TransactionStateError \<and> shift h l = Inl TransactionStateError"
  by (simp add: pop_def shift_def assert_inTransaction_def)

theorem pop_shift_outside_transaction_witness:
  "pop \<lparr>fromBinding = (\<lambda>n::nat. int n), toBinding = nat, toBindingEmbedded = nat\<rparr>
       \<lparr>isInTransaction = False, internal = [], isEmbedded = False\<rparr>
     = Inl TransactionStateError \<and>
   shift \<lparr>fromBinding = (\<lambda>n::nat. int n), toBinding = nat, toBindingEmbedded = nat\<rparr>
       \<lparr>isInTransaction = False, internal = [], isEmbedded = False\<rparr>
     = Inl TransactionStateError"
  using pop_shift_outside_transaction
          [of "\<lparr>isInTransaction = False, internal = ([]::nat list), isEmbedded = False\<rparr>"
              "\<lparr>fromBinding = (\<lambda>n::nat. int n), toBinding = nat, toBindingEmbedded = nat\<rparr>"]
  by simp

subsection \<open>splice\<close>

lemma spliceRead_eq:
  "0 \<le> i \<Longrightarrow> e \<le> size xs \<Longrightarrow>
     spliceRead h xs i e acc =
       Inr (acc @ map (fromBinding h) (take (nat (e - i)) (drop (nat i) xs)))"
proof (induction h xs i e acc rule: spliceRead.induct)
  case (1 h xs i e acc)
  show ?case
  proof (cases "i < e")
    case False
    then show ?thesis by (subst spliceRead.simps) simp
  next
    case True
    with 1(2,3) have lt: "nat i < length xs" by (simp add: size_def)
    have g: "getAny xs i = Inr (xs ! nat i)"
      using True 1(2,3) by (simp add: getAny_def)
    have ih: "spliceRead h xs (i + 1) e (acc @ [fromBinding h (xs ! nat i)]) =
        Inr ((acc @ [fromBinding h (xs ! nat i)]) @
             map (fromBinding h) (take (nat (e - (i + 1))) (drop (nat (i + 1)) xs)))"
      using 1(1) [OF True g] 1(2,3) by simp
    have n1: "nat (e - i) = Suc (nat (e - (i + 1)))" using True by simp
    have n2: "nat (i + 1) = Suc (nat i)" using 1(2) by simp
    have "take (nat (e - i)) (drop (nat i) xs) =
          xs ! nat i # take (nat (e - (i + 1))) (drop (nat (i + 1)) xs)"
      unfolding n1 n2 using lt by (simp add: Cons_nth_drop_Suc [symmetric])
    then show ?thesis
      using True g ih by (subst spliceRead.simps) simp
  qed
qed

lemma spliceRemove_eq:
  "0 \<le> s \<Longrightarrow> s - 1 \<le> i \<Longrightarrow> i < size xs \<Longrightarrow>
     spliceRemove xs i s = Inr (take (nat s) xs @ drop (nat (i + 1)) xs)"
proof (induction xs i s rule: spliceRemove.induct)
  case (1 xs i s)
  show ?case
  proof (cases "i \<ge> s")
    case False
    with 1(3) have "i + 1 = s" by simp
    with False show ?thesis by (subst spliceRemove.simps) simp
  next
    case True
    have r: "remove xs i = Inr (take (nat i) xs @ drop (Suc (nat i)) xs)"
      using True 1(2,4) by (simp add: remove_def)
    have ih: "spliceRemove (take (nat i) xs @ drop (Suc (nat i)) xs) (i - 1) s =
        Inr (take (nat s) (take (nat i) xs @ drop (Suc (nat i)) xs) @
             drop (nat (i - 1 + 1)) (take (nat i) xs @ drop (Suc (nat i)) xs))"
      using 1(1) [OF True r] True 1(2,4) by (simp add: size_def)
    have le: "nat s \<le> nat i" "nat i < length xs" "nat (i + 1) = Suc (nat i)"
      using True 1(2,4) by (simp_all add: size_def)
    show ?thesis
      using True r ih le by (subst spliceRemove.simps) (simp add: min_absorb2)
  qed
qed

lemma spliceInsert_eq:
  "0 \<le> start + offset \<Longrightarrow> start + offset \<le> size xs \<Longrightarrow>
     spliceInsert h emb xs start offset items =
       Inr (take (nat (start + offset)) xs @
            map (if emb then toBindingEmbedded h else toBinding h) items @
            drop (nat (start + offset)) xs)"
proof (induction items arbitrary: xs offset)
  case Nil
  then show ?case by simp
next
  case (Cons item items)
  let ?k = "nat (start + offset)"
  let ?v = "(if emb then toBindingEmbedded h else toBinding h) item"
  have k: "?k \<le> length xs" "nat (start + (offset + 1)) = Suc ?k"
    using Cons.prems by (simp_all add: size_def)
  have ins: "(if emb then insertAny xs (start + offset) (toBindingEmbedded h item)
              else insertAny xs (start + offset) (toBinding h item)) =
             Inr (take ?k xs @ ?v # drop ?k xs)"
    using Cons.prems by (simp add: insertAny_def)
  have ih: "spliceInsert h emb (take ?k xs @ ?v # drop ?k xs) start (offset + 1) items =
      Inr (take (Suc ?k) (take ?k xs @ ?v # drop ?k xs) @
           map (if emb then toBindingEmbedded h else toBinding h) items @
           drop (Suc ?k) (take ?k xs @ ?v # drop ?k xs))"
    using Cons.IH [of "offset + 1" "take ?k xs @ ?v # drop ?k xs"] Cons.prems k
    by (simp add: size_def)
  show ?case
    using ins ih k by (simp add: Let_def min_absorb2)
qed

text \<open>
  Inside a write transaction and for \<open>start \<ge> - length\<close>, \<open>splice\<close> does what
  \<^verbatim>\<open>Array.prototype.splice\<close> does on the marshalled values: the removed elements come back
  through \<open>fromBinding\<close> in their order, and the items take their place in argument order
  at the normalized start.
\<close>

lemma splice_in_range:
  assumes "isInTransaction l" and "- size (internal l) \<le> start"
  shows "splice h l start deleteCount items =
     (case arraySplice (internal l) start deleteCount
             (map (if isEmbedded l then toBindingEmbedded h else toBinding h) items) of
        (removed, rest) \<Rightarrow> Inr (map (fromBinding h) removed, l\<lparr>internal := rest\<rparr>))"
proof -
  let ?n = "size (internal l)"
  let ?s = "spliceStart ?n start"
  let ?e = "(case deleteCount of Some n \<Rightarrow> min (?s + n) ?n | None \<Rightarrow> ?n)"
  have s: "0 \<le> ?s" "?s \<le> ?n" "?s = arraySpliceStart ?n start"
    using assms(2) by (auto simp: spliceStart_def arraySpliceStart_def Let_def size_def)
  have e: "?e \<le> ?n" by (simp split: option.splits)
  have rd: "spliceRead h (internal l) ?s ?e [] =
      Inr (map (fromBinding h) (take (nat (?e - ?s)) (drop (nat ?s) (internal l))))"
    using spliceRead_eq [OF s(1) e, of h "[]"] by simp
  have rm: "spliceRemove (internal l) (?e - 1) ?s =
      Inr (take (nat ?s) (internal l) @ drop (nat ?s + nat (?e - ?s)) (internal l))"
  proof (cases "?s \<le> ?e")
    case True
    then have "nat (?e - 1 + 1) = nat ?s + nat (?e - ?s)" using s(1) by simp
    moreover have "spliceRemove (internal l) (?e - 1) ?s =
        Inr (take (nat ?s) (internal l) @ drop (nat (?e - 1 + 1)) (internal l))"
      using True e s(1) by (intro spliceRemove_eq) auto
    ultimately show ?thesis by simp
  next
    case False
    then show ?thesis by (subst spliceRemove.simps) simp
  qed
  have len: "size (take (nat ?s) (internal l) @ drop (nat ?s + nat (?e - ?s)) (internal l)) \<ge> ?s"
    using s(1,2) by (simp add: size_def)
  have ins: "spliceInsert h (isEmbedded l)
        (take (nat ?s) (internal l) @ drop (nat ?s + nat (?e - ?s)) (internal l)) ?s 0 items =
      Inr (take (nat ?s) (internal l) @
           map (if isEmbedded l then toBindingEmbedded h else toBinding h) items @
           drop (nat ?s + nat (?e - ?s)) (internal l))"
    using spliceInsert_eq [of ?s 0
            "take (nat ?s) (internal l) @ drop (nat ?s + nat (?e - ?s)) (internal l)"
            h "isEmbedded l" items] s(1,2) len
    by (simp add: size_def min_absorb2)
  let ?g = "(if isEmbedded l then toBindingEmbedded h else toBinding h)"
  have k: "(case deleteCount of None \<Rightarrow> length (internal l) - nat ?s
       | Some d \<Rightarrow> nat (min (max d 0) (int (length (internal l)) - int (nat ?s)))) =
      nat (?e - ?s)"
    using s(1,2) by (cases deleteCount) (auto simp: size_def)
  have s3: "arraySpliceStart (int (length (internal l))) start = ?s"
    using s(3) by (simp add: size_def)
  have run: "splice h l start deleteCount items =
      Inr (map (fromBinding h) (take (nat (?e - ?s)) (drop (nat ?s) (internal l))),
           l\<lparr>internal := take (nat ?s) (internal l) @ map ?g items @
                          drop (nat ?s + nat (?e - ?s)) (internal l)\<rparr>)"
    using assms(1)
    by (simp only: splice_def Let_def assert_inTransaction_def if_True sum.case rd rm ins)
  have ref: "arraySplice (internal l) start deleteCount (map ?g items) =
      (take (nat (?e - ?s)) (drop (nat ?s) (internal l)),
       take (nat ?s) (internal l) @ map ?g items @ drop (nat ?s + nat (?e - ?s)) (internal l))"
    by (simp only: arraySplice_def Let_def s3 k)
  show ?thesis
    by (simp only: run ref prod.case)
qed

lemma splice_last_of_three:
  "splice h \<lparr>isInTransaction = True, internal = [a, b, c], isEmbedded = False\<rparr> (-1) None [] =
     Inr ([fromBinding h c], \<lparr>isInTransaction = True, internal = [a, b], isEmbedded = False\<rparr>)"
  by (simp add: splice_def assert_inTransaction_def spliceStart_def size_def
       getAny_def remove_def spliceRead.simps spliceRemove.simps)

text \<open>
  C3. \<open>splice\<close> should count a negative start from the end of the list and clamp it to \<open>0\<close>,
  as \<^verbatim>\<open>Array.prototype.splice\<close> does. The code adds the length to a negative start and
  clamps only from above: for a three-element list and \<open>start = -5\<close> the start becomes
  \<open>-2\<close> where the array method uses \<open>0\<close>, the first read is \<^verbatim>\<open>internal.getAny(-2)\<close>, and the
  call ends in the engine's bounds error instead of removing and returning the three
  elements.
\<close>

theorem splice_start_below_minus_length:
  "splice h \<lparr>isInTransaction = True, internal = [a, b, c], isEmbedded = False\<rparr> (-5) None [] =
     Inl EngineError \<and>
   spliceStart 3 (-5) = -2 \<and> arraySpliceStart 3 (-5) = 0 \<and>
   arraySplice [a, b, c] (-5) None [] = ([a, b, c], [])"
  by (simp add: splice_def assert_inTransaction_def spliceStart_def arraySpliceStart_def size_def
       getAny_def spliceRead.simps arraySplice_def)

section \<open>Properties of Dictionary\<close>



end
